theory Spec2Isabelle
  imports Main "HOL-Library.Log_Nat"
begin

section \<open>The simulation driver of the active-learning simulator\<close>

text \<open>
  A shallow embedding of \<^verbatim>\<open>simulate.py\<close>: the functions \<^verbatim>\<open>simulate\<close> and
  \<^verbatim>\<open>run_model\<close> and the class \<^verbatim>\<open>Config\<close>. The file is the glue around the
  active-learning loop; the loop itself (\<^verbatim>\<open>ActiveLearner\<close>), the component classes the
  configuration names, \<^verbatim>\<open>get_datasets\<close> and the plotting helpers live in other modules.
  Their behaviour is a parameter of the model (the record \<open>env\<close> below), so every theorem
  holds for whatever those modules do.
\<close>

subsection \<open>Python values\<close>

text \<open>
  Exceptions are values: a fallible computation returns \<open>error + 'a\<close>, \<open>Inl\<close> for a
  raise. The first four are raised by Python's built-ins; \<open>TrainingError\<close> and
  \<open>InvalidBatchSizeError\<close> are the kinds the specification names, and \<open>OtherError\<close>
  is any other exception of a collaborator.
\<close>

datatype error =
    OverflowError
  | IndexError
  | ValueError
  | ZeroDivisionError
  | TrainingError
  | InvalidBatchSizeError
  | OtherError string

type_synonym dataset = "(rat list \<times> bool) list"

text \<open>A value passed to a constructor: a number, a flag, a string or a dataset.\<close>

datatype arg =
    AInt int
  | AFloat rat
  | ABool bool
  | AStr string
  | AData dataset

text \<open>\<^verbatim>\<open>xs[-1]\<close> and \<^verbatim>\<open>xs[i]\<close> for \<open>i \<ge> 0\<close>: IndexError outside the list.\<close>

definition py_last :: "'a list \<Rightarrow> error + 'a" where
  "py_last vs = (if vs = [] then Inl IndexError else Inr (last vs))"

definition py_nth :: "'a list \<Rightarrow> nat \<Rightarrow> error + 'a" where
  "py_nth vs i = (if i < length vs then Inr (vs ! i) else Inl IndexError)"

text \<open>
  \<^verbatim>\<open>min(xs)\<close> scans from the left and keeps the first smallest element; it raises
  ValueError on an empty list. It is applied to lists of floats; a finite float is modelled
  by the rational it denotes.
\<close>

fun py_min :: "rat list \<Rightarrow> error + rat" where
  "py_min [] = Inl ValueError"
| "py_min (v # vs) = Inr (foldl (\<lambda>m u. if u < m then u else m) v vs)"

subsection \<open>Floats\<close>

text \<open>
  A Python float is an IEEE-754 binary64 number. A finite one is modelled by the rational
  it denotes. \<open>binary64\<close> rounds a rational to the nearest binary64 number, ties to even,
  with 53 significant bits and the smallest exponent \<open>-1022\<close> (subnormals below it) but no
  largest exponent: a result of magnitude \<open>2 ^ 1024\<close> or more is what IEEE arithmetic
  delivers as an infinity. The floats of a configuration and of the metric histories
  are taken to be finite (no infinity and no NaN), and the sums of metric values to stay
  finite.
\<close>

definition round_half_even :: "rat \<Rightarrow> int" where
  "round_half_even q =
     (let n = \<lfloor>q\<rfloor>; r = q - of_int n
      in if r < 1 / 2 then n else if 1 / 2 < r then n + 1 else if even n then n else n + 1)"

text \<open>\<open>ilog2 x\<close> is the integer \<open>e\<close> with \<open>2 ^ e \<le> x < 2 ^ (e + 1)\<close>, for \<open>x > 0\<close>.\<close>

definition ilog2 :: "rat \<Rightarrow> int" where
  "ilog2 v =
     (let (p, q) = quotient_of v; e = bitlen p - bitlen q
      in if 2 powi e \<le> v then e else e - 1)"

definition binary64 :: "rat \<Rightarrow> rat" where
  "binary64 v =
     (if v = 0 then 0
      else let e = max (ilog2 \<bar>v\<bar>) (- 1022); ulp = 2 powi (e - 52)
           in sgn v * of_int (round_half_even (\<bar>v\<bar> / ulp)) * ulp)"

definition is_inf :: "rat \<Rightarrow> bool" where
  "is_inf v = (2 ^ 1024 \<le> \<bar>v\<bar>)"

text \<open>
  \<^verbatim>\<open>f * n\<close> for a float \<open>f\<close> and an int \<open>n\<close>: the int is converted to a float (rounded;
  OverflowError when it is too large), then the product is rounded.
\<close>

definition float_of_nat :: "nat \<Rightarrow> error + rat" where
  "float_of_nat n =
     (let v = binary64 (of_nat n) in if is_inf v then Inl OverflowError else Inr v)"

definition float_mul_nat :: "rat \<Rightarrow> nat \<Rightarrow> error + rat" where
  "float_mul_nat f n =
     (case float_of_nat n of Inl e \<Rightarrow> Inl e | Inr v \<Rightarrow> Inr (binary64 (f * v)))"

text \<open>
  \<^verbatim>\<open>int(v)\<close> for a float \<open>v\<close> drops the fractional part (it rounds toward zero) and
  raises OverflowError on an infinity.
\<close>

definition py_int :: "rat \<Rightarrow> error + int" where
  "py_int v =
     (if is_inf v then Inl OverflowError
      else Inr (if v < 0 then - \<lfloor>- v\<rfloor> else \<lfloor>v\<rfloor>))"

text \<open>
  \<^verbatim>\<open>sum(xs)\<close> on a list of floats adds from the left, starting at 0, and every
  addition is rounded (as CPython does up to version 3.11; later versions compensate the
  rounding errors of the additions). \<^verbatim>\<open>a / n\<close> for a float \<open>a\<close> and an int \<open>n\<close> raises
  ZeroDivisionError for \<open>n = 0\<close>; otherwise the int is converted to a float and the
  quotient is rounded.
\<close>

definition float_add :: "rat \<Rightarrow> rat \<Rightarrow> rat" where
  "float_add a b = binary64 (a + b)"

definition py_sum :: "rat list \<Rightarrow> rat" where
  "py_sum vs = foldl float_add 0 vs"

definition py_truediv :: "rat \<Rightarrow> nat \<Rightarrow> error + rat" where
  "py_truediv a n =
     (if n = 0 then Inl ZeroDivisionError
      else (case float_of_nat n of Inl e \<Rightarrow> Inl e | Inr m \<Rightarrow> Inr (binary64 (a / m))))"

subsection \<open>Configurations, components and the world\<close>

text \<open>
  One entry of \<^verbatim>\<open>params\<close>: the dictionary \<^verbatim>\<open>create_simulator_params\<close> builds for a
  configuration. The fields are the keys \<^verbatim>\<open>simulate.py\<close> reads; \<open>other\<close> holds any
  further keys of the dictionary. A class is known by its name.
\<close>

type_synonym cls = string

record params =
  name :: string
  output_path :: string
  data :: "arg list"
  feature_extraction :: arg
  output_metrics :: "arg list"
  batch_proportion :: rat
  confidence :: rat
  model :: "cls \<times> arg list"
  selector :: "cls \<times> arg list \<times> bool"
  stopper :: "cls \<times> arg list \<times> bool"
  evaluator :: "cls \<times> bool"
  active_learner :: "arg \<times> bool"
  other :: "(string \<times> arg) list"

text \<open>
  An instance of a class: its identity (no two objects alive share one) and the
  positional and keyword arguments its constructor was called with.
\<close>

record obj =
  obj_id :: nat
  obj_class :: cls
  obj_args :: "arg list"
  obj_kwargs :: "(string \<times> arg) list"

text \<open>
  Of an evaluator, \<^verbatim>\<open>simulate.py\<close> reads the histories \<^verbatim>\<open>recall\<close> and
  \<^verbatim>\<open>work_save\<close>, one value per iteration.
\<close>

record evaluator_obj =
  ev_obj :: obj
  recall :: "rat list"
  work_save :: "rat list"

text \<open>
  An \<^verbatim>\<open>ActiveLearner\<close>: the arguments of its constructor call in \<^verbatim>\<open>run_model\<close>, its
  identity, and the batches its training selected, iteration by iteration.
\<close>

record learner =
  al_id :: nat
  al_model :: obj
  al_selector :: obj
  al_stopper :: obj
  al_batch_size :: int
  al_max_iter :: nat
  al_evaluator :: evaluator_obj
  al_verbose :: bool
  al_batches :: "nat list list"

text \<open>What one training run produces: the batches and the two metric histories.\<close>

record trace =
  tr_batches :: "nat list list"
  tr_recall :: "rat list"
  tr_work_save :: "rat list"

text \<open>
  An entry of \<^verbatim>\<open>Config.metrics\<close>, the dictionary with the keys \<^verbatim>\<open>'name'\<close>,
  \<^verbatim>\<open>'x'\<close> and \<^verbatim>\<open>'y'\<close>; and the same with a list of values on each axis, which
  \<^verbatim>\<open>evaluate_configs\<close> hands to \<^verbatim>\<open>scatter_plot\<close>.
\<close>

record metric =
  metric_name :: string
  metric_x :: "string \<times> rat"
  metric_y :: "string \<times> rat"

record plot =
  plot_name :: string
  plot_x :: "string \<times> rat list"
  plot_y :: "string \<times> rat list"

record config =
  metrics :: "metric list"
  param :: params

text \<open>The calls the driver makes, recorded in order so that theorems can speak of them.\<close>

datatype call =
    Run_model params dataset
  | Update_metrics "learner list"
  | Evaluate_configs "config list"

text \<open>
  The state outside the driver's variables: the state of numpy's global random
  generator, the number of objects created so far (the next fresh identity), and the
  record of calls.
\<close>

record world =
  rng :: nat
  next_id :: nat
  calls :: "call list"

text \<open>
  The collaborators, as parameters: the datasets \<^verbatim>\<open>get_datasets\<close> loads for a
  configuration; the generator state \<^verbatim>\<open>np.random.seed\<close> installs; what a component
  class's constructor does with its arguments and the generator (whether it raises, and
  the generator state it leaves); the same for \<^verbatim>\<open>ActiveLearner\<close>'s constructor; and
  what \<^verbatim>\<open>ActiveLearner.train\<close> does on a dataset (it raises, or produces a trace).
\<close>

record env =
  get_datasets :: "params \<Rightarrow> dataset list"
  seed_state :: "nat \<Rightarrow> nat"
  init :: "cls \<Rightarrow> arg list \<Rightarrow> (string \<times> arg) list \<Rightarrow> nat \<Rightarrow> error option \<times> nat"
  al_init :: "learner \<Rightarrow> nat \<Rightarrow> error option \<times> nat"
  al_train :: "learner \<Rightarrow> dataset \<Rightarrow> nat \<Rightarrow> (error + trace) \<times> nat"

definition record_call :: "call \<Rightarrow> world \<Rightarrow> world" where
  "record_call c w = w\<lparr>calls := calls w @ [c]\<rparr>"

text \<open>Calling a class: the constructor runs; if it returns, a new object exists.\<close>

definition new_obj ::
  "env \<Rightarrow> cls \<Rightarrow> arg list \<Rightarrow> (string \<times> arg) list \<Rightarrow> world \<Rightarrow> (error + obj) \<times> world" where
  "new_obj E c as kws w =
     (case init E c as kws (rng w) of
        (Some e, r) \<Rightarrow> (Inl e, w\<lparr>rng := r\<rparr>)
      | (None, r) \<Rightarrow>
          (Inr \<lparr>obj_id = next_id w, obj_class = c, obj_args = as, obj_kwargs = kws\<rparr>,
           w\<lparr>rng := r, next_id := Suc (next_id w)\<rparr>))"

definition ActiveLearner ::
  "env \<Rightarrow> obj \<Rightarrow> obj \<Rightarrow> obj \<Rightarrow> int \<Rightarrow> nat \<Rightarrow> evaluator_obj \<Rightarrow> bool \<Rightarrow> world \<Rightarrow>
     (error + learner) \<times> world" where
  "ActiveLearner E m sel stp bs mi ev vb w =
     (let al = \<lparr>al_id = next_id w, al_model = m, al_selector = sel, al_stopper = stp,
                al_batch_size = bs, al_max_iter = mi, al_evaluator = ev, al_verbose = vb,
                al_batches = []\<rparr>
      in case al_init E al (rng w) of
           (Some e, r) \<Rightarrow> (Inl e, w\<lparr>rng := r\<rparr>)
         | (None, r) \<Rightarrow> (Inr al, w\<lparr>rng := r, next_id := Suc (next_id w)\<rparr>))"

subsection \<open>\<^verbatim>\<open>run_model\<close>\<close>

text \<open>
  \<^verbatim>\<open>batch_size = int(params['batch_proportion'] * N) + 1\<close>, for a batch proportion that
  is a finite float. (For a NaN, which the model leaves out, \<^verbatim>\<open>int\<close> raises ValueError.)
\<close>

definition batch_size_of :: "rat \<Rightarrow> nat \<Rightarrow> error + int" where
  "batch_size_of bp N =
     (case float_mul_nat bp N of
        Inl e \<Rightarrow> Inl e
      | Inr v \<Rightarrow> (case py_int v of Inl e \<Rightarrow> Inl e | Inr k \<Rightarrow> Inr (k + 1)))"

text \<open>The argument \<^verbatim>\<open>data\<close> of \<^verbatim>\<open>run_model\<close>: a dictionary with two keys.\<close>

record data_dict =
  train :: dataset
  dev :: dataset

text \<open>
  The first part of \<^verbatim>\<open>run_model\<close>, up to the call of \<^verbatim>\<open>ActiveLearner\<close>: the batch
  size, then the model, the selector, the stopper and the evaluator, in this order, each
  by a call of the class the configuration names.
\<close>

definition create_active_learner ::
  "env \<Rightarrow> data_dict \<Rightarrow> params \<Rightarrow> world \<Rightarrow> (error + learner) \<times> world" where
  "create_active_learner E d p w =
     (let N = length (train d) in
      case batch_size_of (batch_proportion p) N of
        Inl e \<Rightarrow> (Inl e, w)
      | Inr batch_size \<Rightarrow>
      (case new_obj E (fst (model p)) (snd (model p)) [] w of
        (Inl e, w1) \<Rightarrow> (Inl e, w1)
      | (Inr model_AL, w1) \<Rightarrow>
      (case new_obj E (fst (selector p)) (AInt batch_size # fst (snd (selector p)))
              [(''verbose'', ABool (snd (snd (selector p))))] w1 of
        (Inl e, w2) \<Rightarrow> (Inl e, w2)
      | (Inr sel, w2) \<Rightarrow>
      (case new_obj E (fst (stopper p))
              (AInt (int N) # AFloat (confidence p) # fst (snd (stopper p)))
              [(''verbose'', ABool (snd (snd (stopper p))))] w2 of
        (Inl e, w3) \<Rightarrow> (Inl e, w3)
      | (Inr stp, w3) \<Rightarrow>
      (case new_obj E (fst (evaluator p)) [AData (train d)]
              [(''verbose'', ABool (snd (evaluator p)))] w3 of
        (Inl e, w4) \<Rightarrow> (Inl e, w4)
      | (Inr ev, w4) \<Rightarrow>
          ActiveLearner E model_AL sel stp batch_size 1000
            \<lparr>ev_obj = ev, recall = [], work_save = []\<rparr> (snd (active_learner p)) w4)))))"

text \<open>
  \<^verbatim>\<open>run_model\<close>: create the learner, train it on \<^verbatim>\<open>data['train']\<close>, return it. The
  training fills the evaluator's histories.
\<close>

definition run_model ::
  "env \<Rightarrow> data_dict \<Rightarrow> params \<Rightarrow> world \<Rightarrow> (error + learner) \<times> world" where
  "run_model E d p w0 =
     (let w = record_call (Run_model p (train d)) w0 in
      case create_active_learner E d p w of
        (Inl e, w1) \<Rightarrow> (Inl e, w1)
      | (Inr al, w1) \<Rightarrow>
          (case al_train E al (train d) (rng w1) of
             (Inl e, r) \<Rightarrow> (Inl e, w1\<lparr>rng := r\<rparr>)
           | (Inr t, r) \<Rightarrow>
               (Inr (al\<lparr>al_evaluator := (al_evaluator al)\<lparr>recall := tr_recall t,
                                                           work_save := tr_work_save t\<rparr>,
                        al_batches := tr_batches t\<rparr>),
                w1\<lparr>rng := r\<rparr>)))"




subsection \<open>The class \<^verbatim>\<open>Config\<close>\<close>

definition Config :: "params \<Rightarrow> config" where
  "Config p = \<lparr>metrics = [], param = p\<rparr>"

text \<open>
  The loop of \<^verbatim>\<open>update_metrics\<close> that collects each learner's last recall and last
  work-save value.
\<close>

fun final_values ::
  "learner list \<Rightarrow> rat list \<Rightarrow> rat list \<Rightarrow> error + (rat list \<times> rat list)" where
  "final_values [] recalls work_saves = Inr (recalls, work_saves)"
| "final_values (AL # ALs) recalls work_saves =
     (case py_last (recall (al_evaluator AL)) of
        Inl e \<Rightarrow> Inl e
      | Inr r \<Rightarrow>
          (case py_last (work_save (al_evaluator AL)) of
             Inl e \<Rightarrow> Inl e
           | Inr s \<Rightarrow> final_values ALs (recalls @ [r]) (work_saves @ [s])))"

definition update_metrics :: "config \<Rightarrow> learner list \<Rightarrow> error + config" where
  "update_metrics self active_learners =
     (case final_values active_learners [] [] of
        Inl e \<Rightarrow> Inl e
      | Inr (recalls, work_saves) \<Rightarrow>
      (case py_min recalls of
        Inl e \<Rightarrow> Inl e
      | Inr min_recall \<Rightarrow>
      (case py_truediv (py_sum recalls) (length recalls) of
        Inl e \<Rightarrow> Inl e
      | Inr mean_recall \<Rightarrow>
      (case py_min work_saves of
        Inl e \<Rightarrow> Inl e
      | Inr min_work_save \<Rightarrow>
      (case py_truediv (py_sum work_saves) (length work_saves) of
        Inl e \<Rightarrow> Inl e
      | Inr mean_work_save \<Rightarrow>
          Inr (self\<lparr>metrics := metrics self @
                 [\<lparr>metric_name = ''min metrics'', metric_x = (''work save'', min_work_save),
                   metric_y = (''recall'', min_recall)\<rparr>,
                  \<lparr>metric_name = ''mean metrics'', metric_x = (''work save'', mean_work_save),
                   metric_y = (''recall'', mean_recall)\<rparr>]\<rparr>))))))"

text \<open>
  \<^verbatim>\<open>evaluate_configs\<close>: for the \<open>i\<close>-th metric of the first configuration, the inner
  loop reads \<^verbatim>\<open>config.metrics[i]\<close> of every configuration.
\<close>

fun gather ::
  "config list \<Rightarrow> nat \<Rightarrow> rat list \<Rightarrow> rat list \<Rightarrow> error + (rat list \<times> rat list)" where
  "gather [] i vx vy = Inr (vx, vy)"
| "gather (c # cs) i vx vy =
     (case py_nth (metrics c) i of
        Inl e \<Rightarrow> Inl e
      | Inr m \<Rightarrow> gather cs i (vx @ [snd (metric_x m)]) (vy @ [snd (metric_y m)]))"

fun plot_metrics ::
  "config list \<Rightarrow> (nat \<times> metric) list \<Rightarrow> plot list \<Rightarrow> error + plot list" where
  "plot_metrics configs [] axs = Inr axs"
| "plot_metrics configs ((i, m) # ims) axs =
     (case gather configs i [] [] of
        Inl e \<Rightarrow> Inl e
      | Inr (vx, vy) \<Rightarrow>
          plot_metrics configs ims
            (axs @ [\<lparr>plot_name = metric_name m, plot_x = (fst (metric_x m), vx),
                     plot_y = (fst (metric_y m), vy)\<rparr>]))"

definition evaluate_configs :: "config list \<Rightarrow> error + plot list" where
  "evaluate_configs configs =
     (case py_nth configs 0 of
        Inl e \<Rightarrow> Inl e
      | Inr c0 \<Rightarrow> plot_metrics configs (enumerate 0 (metrics c0)) [])"

subsection \<open>\<^verbatim>\<open>simulate\<close>\<close>

text \<open>
  The loop over the datasets of one configuration. There is no handler around the call of
  \<^verbatim>\<open>run_model\<close>: an exception leaves the loop.
\<close>

fun run_datasets ::
  "env \<Rightarrow> params \<Rightarrow> dataset list \<Rightarrow> learner list \<Rightarrow> world \<Rightarrow>
     (error + learner list) \<times> world" where
  "run_datasets E p [] active_learners w = (Inr active_learners, w)"
| "run_datasets E p (ds # dss) active_learners w =
     (case run_model E \<lparr>train = ds, dev = ds\<rparr> p w of
        (Inl e, w1) \<Rightarrow> (Inl e, w1)
      | (Inr al, w1) \<Rightarrow> run_datasets E p dss (active_learners @ [al]) w1)"

text \<open>
  The loop over the configurations. A configuration without datasets is skipped; for
  any other the generator is seeded with 0, its datasets are run, and a \<^verbatim>\<open>Config\<close> with
  its metrics is appended to \<^verbatim>\<open>configs\<close>.

  The model follows the generator, the objects, the calls and the list \<^verbatim>\<open>configs\<close>.
  It leaves out what the loop does with the file system: the output directories it makes
  for every configuration, skipped or not, the file \<^verbatim>\<open>config_parameters.json\<close> it
  writes, the variable \<^verbatim>\<open>output_name\<close> that one configuration overwrites for the
  next, the directory it passes to \<^verbatim>\<open>get_datasets\<close>, and the plots and result files
  written after the runs. Any of these can raise and end \<^verbatim>\<open>simulate\<close> early, where
  the model goes on. So the theorems about this loop say what is true of every call it
  makes and of every \<^verbatim>\<open>Config\<close> it builds, and what follows once a run raises; they
  do not say that the loop gets that far.
\<close>

fun simulate_configs ::
  "env \<Rightarrow> params list \<Rightarrow> config list \<Rightarrow> world \<Rightarrow> (error + config list) \<times> world" where
  "simulate_configs E [] configs w = (Inr configs, w)"
| "simulate_configs E (p # ps) configs w =
     (if length (get_datasets E p) = 0 then simulate_configs E ps configs w
      else
        (case run_datasets E p (get_datasets E p) [] (w\<lparr>rng := seed_state E 0\<rparr>) of
           (Inl e, w1) \<Rightarrow> (Inl e, w1)
         | (Inr active_learners, w1) \<Rightarrow>
             (case update_metrics (Config p) active_learners of
                Inl e \<Rightarrow> (Inl e, record_call (Update_metrics active_learners) w1)
              | Inr c \<Rightarrow>
                  simulate_configs E ps (configs @ [c])
                    (record_call (Update_metrics active_learners) w1))))"

text \<open>
  After the loop: if there is a configuration, \<^verbatim>\<open>evaluate_configs\<close> builds one plot
  per metric, and the \<open>i\<close>-th plot is written to a file named after
  \<^verbatim>\<open>configs[0].metrics[i]['name']\<close>.
\<close>

fun write_plots ::
  "config list \<Rightarrow> (nat \<times> plot) list \<Rightarrow> (string \<times> plot) list \<Rightarrow>
     error + (string \<times> plot) list" where
  "write_plots configs [] out = Inr out"
| "write_plots configs ((i, ax) # rest) out =
     (case py_nth configs 0 of
        Inl e \<Rightarrow> Inl e
      | Inr c0 \<Rightarrow>
          (case py_nth (metrics c0) i of
             Inl e \<Rightarrow> Inl e
           | Inr m \<Rightarrow> write_plots configs rest (out @ [(metric_name m @ ''.html'', ax)])))"

definition simulate ::
  "env \<Rightarrow> params list \<Rightarrow> world \<Rightarrow> (error + (string \<times> plot) list) \<times> world" where
  "simulate E ps w =
     (case simulate_configs E ps [] w of
        (Inl e, w1) \<Rightarrow> (Inl e, w1)
      | (Inr configs, w1) \<Rightarrow>
          (if length configs > 0
           then (case evaluate_configs configs of
                   Inl e \<Rightarrow> (Inl e, record_call (Evaluate_configs configs) w1)
                 | Inr axs \<Rightarrow>
                     (write_plots configs (enumerate 0 axs) [],
                      record_call (Evaluate_configs configs) w1))
           else (Inr [], w1)))"

subsection \<open>Concrete inputs\<close>

text \<open>
  Modelled from the spec: the training of a learner, \<^verbatim>\<open>ActiveLearner.train\<close>, which is
  not in \<^verbatim>\<open>simulate.py\<close>. The specification has the training of the model fail with
  \<open>TrainingError\<close> on an empty labelled set, and the selector pick the first batch by an
  initialization rule such as a random sample. In this world a training run fails with
  \<open>TrainingError\<close> on an empty dataset, and otherwise draws one item with the generator
  and ends after one iteration.
\<close>

definition random_training :: "learner \<Rightarrow> dataset \<Rightarrow> nat \<Rightarrow> (error + trace) \<times> nat" where
  "random_training al ds r =
     (if ds = [] then (Inl TrainingError, r)
      else (Inr \<lparr>tr_batches = [[r mod length ds]], tr_recall = [1],
                 tr_work_save = [1 - 1 / of_nat (length ds)]\<rparr>, Suc r))"

text \<open>
  A small world to evaluate the driver in: the datasets of a configuration are listed in
  its \<^verbatim>\<open>data\<close> entry, every constructor succeeds and leaves the generator alone, and
  the training is the one above.
\<close>

definition example_env :: env where
  "example_env =
     \<lparr>get_datasets = (\<lambda>p. concat (map (\<lambda>a. case a of AData ds \<Rightarrow> [ds] | _ \<Rightarrow> []) (data p))),
      seed_state = (\<lambda>s. s),
      init = (\<lambda>c as kws r. (None, r)),
      al_init = (\<lambda>al r. (None, r)),
      al_train = random_training\<rparr>"

definition example_params :: "rat \<Rightarrow> arg list \<Rightarrow> params" where
  "example_params bp dat =
     \<lparr>name = ''config'', output_path = ''out'', data = dat,
      feature_extraction = AStr ''tfidf'', output_metrics = [], batch_proportion = bp,
      confidence = 19 / 20, model = (''NB'', []),
      selector = (''HighestConfidence'', [], False),
      stopper = (''SampleProportion'', [AFloat (1 / 10)], False),
      evaluator = (''Evaluator'', False), active_learner = (AStr ''ActiveLearner'', False),
      other = [(''max_iter'', AInt 5)]\<rparr>"


definition example_world :: world where
  "example_world = \<lparr>rng = 7, next_id = 0, calls = []\<rparr>"


definition example_data :: "nat \<Rightarrow> data_dict" where
  "example_data n = \<lparr>train = replicate n ([], True), dev = replicate n ([], True)\<rparr>"

section \<open>Properties\<close>

subsection \<open>What \<^verbatim>\<open>run_model\<close> builds\<close>

lemma create_active_learner_InrD:
  assumes "create_active_learner E d p w = (Inr al, w')"
  shows "batch_size_of (batch_proportion p) (length (train d)) = Inr (al_batch_size al)"
    and "al_max_iter al = 1000"
    and "al_model al = \<lparr>obj_id = next_id w, obj_class = fst (model p),
           obj_args = snd (model p), obj_kwargs = []\<rparr>"
    and "al_selector al = \<lparr>obj_id = next_id w + 1, obj_class = fst (selector p),
           obj_args = AInt (al_batch_size al) # fst (snd (selector p)),
           obj_kwargs = [(''verbose'', ABool (snd (snd (selector p))))]\<rparr>"
    and "al_stopper al = \<lparr>obj_id = next_id w + 2, obj_class = fst (stopper p),
           obj_args = AInt (int (length (train d))) # AFloat (confidence p) # fst (snd (stopper p)),
           obj_kwargs = [(''verbose'', ABool (snd (snd (stopper p))))]\<rparr>"
    and "al_evaluator al = \<lparr>ev_obj = \<lparr>obj_id = next_id w + 3, obj_class = fst (evaluator p),
           obj_args = [AData (train d)],
           obj_kwargs = [(''verbose'', ABool (snd (evaluator p)))]\<rparr>, recall = [], work_save = []\<rparr>"
    and "al_id al = next_id w + 4"
    and "al_verbose al = snd (active_learner p)"
    and "next_id w' = next_id w + 5"
    and "calls w' = calls w"
  using assms
  by (auto simp: create_active_learner_def new_obj_def ActiveLearner_def Let_def
      split: sum.splits prod.splits option.splits)

lemma run_model_InrD:
  assumes "run_model E d p w = (Inr al, w')"
  shows "\<exists>al0 w1. create_active_learner E d p (record_call (Run_model p (train d)) w) = (Inr al0, w1)
           \<and> al_batch_size al = al_batch_size al0 \<and> al_max_iter al = al_max_iter al0
           \<and> al_model al = al_model al0 \<and> al_selector al = al_selector al0
           \<and> al_stopper al = al_stopper al0 \<and> ev_obj (al_evaluator al) = ev_obj (al_evaluator al0)
           \<and> al_id al = al_id al0 \<and> al_verbose al = al_verbose al0
           \<and> next_id w' = next_id w1 \<and> calls w' = calls w1"
  using assms
  by (auto simp: run_model_def Let_def split: sum.splits prod.splits)

subsection \<open>Floats and the batch size\<close>

text \<open>The threshold \<open>2 ^ 1024\<close> written out, for evaluation.\<close>

lemma is_inf_code [code]:
  "is_inf v =
     (179769313486231590772930519078902473361797697894230657273430081157732675805500963132708477322407536021120113879871393357658789768814416622492847430639474124377767893424865485276302219601246094119453082952085005768838150682342462881473913110540827237163350510684586298239947245938479716304835356329624224137216 \<le> \<bar>v\<bar>)"
  by (simp add: is_inf_def)

lemma round_half_even_nonneg: "0 \<le> q \<Longrightarrow> 0 \<le> round_half_even q"
  by (simp add: round_half_even_def Let_def)

lemma binary64_nonneg: "0 \<le> v \<Longrightarrow> 0 \<le> binary64 v"
  by (simp add: binary64_def Let_def round_half_even_nonneg)

lemma binary64_minus: "binary64 (- v) = - binary64 v"
  by (simp add: binary64_def Let_def)

lemma binary64_nonpos:
  assumes "v \<le> 0"
  shows "binary64 v \<le> 0"
proof -
  have "0 \<le> binary64 (- v)" using assms by (intro binary64_nonneg) simp
  then show ?thesis by (simp add: binary64_minus)
qed

lemma float_of_nat_nonneg: "float_of_nat n = Inr v \<Longrightarrow> 0 \<le> v"
  by (auto simp: float_of_nat_def Let_def binary64_nonneg split: if_splits)

lemma float_mul_nat_sign:
  assumes "float_mul_nat f n = Inr v"
  shows "0 \<le> f \<Longrightarrow> 0 \<le> v" and "f \<le> 0 \<Longrightarrow> v \<le> 0"
  using assms
  by (auto simp: float_mul_nat_def binary64_nonneg binary64_nonpos mult_nonpos_nonneg
      dest!: float_of_nat_nonneg split: sum.splits)

lemma py_int_trunc:
  assumes "py_int v = Inr k"
  shows "0 \<le> v \<Longrightarrow> k = \<lfloor>v\<rfloor>" and "v \<le> 0 \<Longrightarrow> k = \<lceil>v\<rceil>"
  using assms by (auto simp: py_int_def ceiling_def split: if_splits)

lemma batch_size_of_InrD:
  assumes "batch_size_of bp N = Inr b"
  shows "\<exists>v. float_mul_nat bp N = Inr v \<and> b = (if 0 \<le> bp then \<lfloor>v\<rfloor> + 1 else \<lceil>v\<rceil> + 1)"
proof -
  from assms obtain v k where v: "float_mul_nat bp N = Inr v" and k: "py_int v = Inr k"
    and b: "b = k + 1"
    by (auto simp: batch_size_of_def split: sum.splits)
  show ?thesis
  proof (cases "0 \<le> bp")
    case True
    then have "0 \<le> v" using float_mul_nat_sign(1)[OF v] by simp
    then show ?thesis using True v b py_int_trunc(1)[OF k] by simp
  next
    case False
    then have "v \<le> 0" using float_mul_nat_sign(2)[OF v] by simp
    then show ?thesis using False v b py_int_trunc(2)[OF k] by simp
  qed
qed

text \<open>
  The rounding of the product is visible in the batch size: \<^verbatim>\<open>0.29 * 100\<close> is
  \<^verbatim>\<open>28.999999999999996\<close>, and \<^verbatim>\<open>0.3 * 10\<close> is \<^verbatim>\<open>3.0\<close> although the float
  \<^verbatim>\<open>0.3\<close> is below three tenths.
\<close>

lemma batch_size_of_rounding:
  "batch_size_of (binary64 (29 / 100)) 100 = Inr 29"
  "batch_size_of (binary64 (3 / 10)) 10 = Inr 4"
  by code_simp+

lemma float_mul_nat_example: "float_mul_nat (binary64 (1 / 20)) 100 = Inr 5"
  by code_simp

subsection \<open>The error of one rounding\<close>










subsection \<open>The error of a float sum and of a float mean\<close>




subsection \<open>Evaluating the concrete inputs\<close>

lemma batch_size_of_examples:
  "batch_size_of (1 / 2) 0 = Inr 1"
  "batch_size_of (1 / 2) (Suc (Suc 0)) = Inr 2"
  "batch_size_of (1 / 2) (Suc (Suc (Suc 0))) = Inr 2"
  by code_simp+

lemma float_of_nat_examples:
  "float_of_nat (Suc 0) = Inr 1"
  "float_of_nat (Suc (Suc 0)) = Inr 2"
  "float_of_nat (Suc (Suc (Suc 0))) = Inr 3"
  by code_simp+

lemmas example_defs =
  example_env_def random_training_def example_params_def example_world_def example_data_def
  run_model_def create_active_learner_def new_obj_def ActiveLearner_def record_call_def
  update_metrics_def Config_def evaluate_configs_def simulate_def Let_def
  py_last_def py_nth_def py_sum_def py_truediv_def batch_size_of_examples
  float_of_nat_examples

section \<open>The claims\<close>

text \<open>
  C1 (as amended). A run computes its batch size once, from the size \<open>N\<close> of the whole
  dataset: it is \<^verbatim>\<open>int(batch_proportion * N) + 1\<close>, where the product is the float
  product and \<^verbatim>\<open>int\<close> rounds toward zero. So it is \<open>floor(batch_proportion * N) + 1\<close>
  when \<open>batch_proportion\<close> is not negative and \<open>ceiling(batch_proportion * N) + 1\<close> when
  it is negative. The same value is the first argument of the selector's constructor and
  the \<^verbatim>\<open>batch_size\<close> of the learner. For \<open>N = 100\<close> and \<open>batch_proportion = 0.05\<close> it
  is 6.
\<close>

theorem batch_size_policy:
  "(run_model E d p w = (Inr al, w') \<longrightarrow>
      (\<exists>v. float_mul_nat (batch_proportion p) (length (train d)) = Inr v \<and>
           al_batch_size al =
             (if 0 \<le> batch_proportion p then \<lfloor>v\<rfloor> + 1 else \<lceil>v\<rceil> + 1)) \<and>
      obj_args (al_selector al) = AInt (al_batch_size al) # fst (snd (selector p)))
   \<and> batch_size_of (binary64 (1 / 20)) 100 = Inr 6"
proof (intro conjI impI)
  assume run: "run_model E d p w = (Inr al, w')"
  from run_model_InrD[OF run] obtain al0 w0 w1
    where c: "create_active_learner E d p w0 = (Inr al0, w1)"
      and eq: "al_batch_size al = al_batch_size al0" "al_selector al = al_selector al0"
    by blast
  from create_active_learner_InrD(1)[OF c] eq
  have "batch_size_of (batch_proportion p) (length (train d)) = Inr (al_batch_size al)"
    by simp
  from batch_size_of_InrD[OF this]
  show "\<exists>v. float_mul_nat (batch_proportion p) (length (train d)) = Inr v \<and>
           al_batch_size al =
             (if 0 \<le> batch_proportion p then \<lfloor>v\<rfloor> + 1 else \<lceil>v\<rceil> + 1)" .
  from create_active_learner_InrD(4)[OF c] eq
  show "obj_args (al_selector al) = AInt (al_batch_size al) # fst (snd (selector p))"
    by simp
next
  show "batch_size_of (binary64 (1 / 20)) 100 = Inr 6"
    by (simp add: batch_size_of_def float_mul_nat_example py_int_def is_inf_def)
qed

text \<open>
  A run on 100 items with \<open>batch_proportion = 0.05\<close>: the learner and its selector get
  the batch size 6.
\<close>

theorem batch_size_policy_witness:
  "\<exists>al w'. run_model example_env (example_data 100) (example_params (binary64 (1 / 20)) [])
              example_world = (Inr al, w')
     \<and> al_batch_size al = 6 \<and> obj_args (al_selector al) = [AInt 6]"
proof -
  have "\<not> isl (fst (run_model example_env (example_data 100)
                 (example_params (binary64 (1 / 20)) []) example_world))"
    by code_simp
  then obtain al w' where run:
    "run_model example_env (example_data 100) (example_params (binary64 (1 / 20)) [])
       example_world = (Inr al, w')"
    by (cases "run_model example_env (example_data 100)
                 (example_params (binary64 (1 / 20)) []) example_world";
        cases "fst (run_model example_env (example_data 100)
                 (example_params (binary64 (1 / 20)) []) example_world)") auto
  have len: "length (train (example_data 100)) = 100"
    by (simp add: example_data_def)
  have bp: "batch_proportion (example_params (binary64 (1 / 20)) []) = binary64 (1 / 20)"
    and sel: "selector (example_params (binary64 (1 / 20)) []) = (''HighestConfidence'', [], False)"
    by (simp_all add: example_params_def)
  have nonneg: "0 \<le> binary64 (1 / 20)"
    by (rule binary64_nonneg) simp
  from batch_size_policy[of example_env "example_data 100"
      "example_params (binary64 (1 / 20)) []" example_world al w'] run
  have "al_batch_size al = 6" "obj_args (al_selector al) = [AInt 6]"
    by (simp_all add: len bp sel nonneg float_mul_nat_example)
  with run show ?thesis by blast
qed

text \<open>
  The claim as stated fails for a negative \<open>batch_proportion\<close>: with \<open>-0.5\<close> and one item
  the product is \<open>-0.5\<close>, its floor plus one is 0, and the run's batch size is 1.
\<close>

theorem batch_size_floor_counterexample:
  "map_sum id al_batch_size
     (fst (run_model example_env (example_data 1) (example_params (- (1 / 2)) [])
            example_world)) = Inr 1
   \<and> float_mul_nat (- (1 / 2)) 1 = Inr (- (1 / 2))
   \<and> \<lfloor>- (1 / 2) :: rat\<rfloor> + 1 = 0"
  by code_simp

subsection \<open>The aggregation of \<^verbatim>\<open>update_metrics\<close>\<close>


lemma foldl_min: "foldl (\<lambda>m u. if u < m then u else m) (v::rat) vs = Min (set (v # vs))"
proof -
  have "(\<lambda>u m. if u < m then u else m) = (min :: rat \<Rightarrow> rat \<Rightarrow> rat)"
    by (intro ext) (simp add: min_def)
  then have "foldl (\<lambda>m u. if u < m then u else m) v vs = fold min vs v"
    by (simp add: foldl_conv_fold)
  then show ?thesis by (simp only: Min.set_eq_fold)
qed

lemma py_min_Min: "vs \<noteq> [] \<Longrightarrow> py_min vs = Inr (Min (set vs))"
  by (cases vs) (simp_all only: py_min.simps foldl_min, simp)


lemma update_metrics_Nil: "update_metrics self [] = Inl ValueError"
  by (simp add: update_metrics_def)




subsection \<open>Errors of \<^verbatim>\<open>run_model\<close>\<close>










subsection \<open>The iteration ceiling\<close>

text \<open>
  C7 (as amended). The learner of every run is constructed with \<^verbatim>\<open>max_iter=1000\<close>, a
  constant of \<^verbatim>\<open>run_model\<close>: no entry of the configuration is read for it.
\<close>

theorem max_iter_is_1000:
  "run_model E d p w = (Inr al, w') \<Longrightarrow> al_max_iter al = 1000"
proof -
  assume run: "run_model E d p w = (Inr al, w')"
  from run_model_InrD[OF run] obtain al0 w0 w1
    where c: "create_active_learner E d p w0 = (Inr al0, w1)"
      and eq: "al_max_iter al = al_max_iter al0"
    by blast
  from create_active_learner_InrD(2)[OF c] eq show ?thesis by simp
qed

text \<open>A run under a configuration that carries \<^verbatim>\<open>max_iter = 20\<close>.\<close>

theorem max_iter_is_1000_witness:
  "\<exists>al w'. run_model example_env (example_data 4)
              ((example_params (1 / 2) [])\<lparr>other := [(''max_iter'', AInt 20)]\<rparr>)
              example_world = (Inr al, w')
     \<and> al_max_iter al = 1000"
proof -
  have "\<not> isl (fst (run_model example_env (example_data 4)
              ((example_params (1 / 2) [])\<lparr>other := [(''max_iter'', AInt 20)]\<rparr>)
              example_world))"
    by code_simp
  then obtain al w' where run:
    "run_model example_env (example_data 4)
       ((example_params (1 / 2) [])\<lparr>other := [(''max_iter'', AInt 20)]\<rparr>)
       example_world = (Inr al, w')"
    by (metis isl_def prod.collapse sum.collapse(2))
  from max_iter_is_1000[OF run] run show ?thesis by blast
qed

text \<open>
  The claim as stated fails: under a configuration whose \<^verbatim>\<open>max_iter\<close> entry is 5, the
  learner is constructed with 1000.
\<close>

theorem max_iter_counterexample:
  "map_of (other (example_params (1 / 2) [])) ''max_iter'' = Some (AInt 5)
   \<and> map_sum id al_max_iter
       (fst (run_model example_env (example_data 3) (example_params (1 / 2) []) example_world))
     = Inr 1000"
  by code_simp

subsection \<open>What the components are constructed from\<close>

text \<open>
  C6. Of the dataset, the stopper's constructor sees the size only: two runs from the same
  state under the same configuration, on datasets of the same size, construct the same
  stopper (and the same model and selector), whose arguments are \<open>N\<close>, the confidence
  target and the configured stopper parameters. The dataset itself is an argument of the
  evaluator's constructor, and of no other.
\<close>

theorem stopper_sees_only_size:
  assumes "run_model E d1 p w = (Inr al1, w1)"
    and "run_model E d2 p w = (Inr al2, w2)"
    and "length (train d1) = length (train d2)"
  shows "al_stopper al1 = al_stopper al2
    \<and> al_model al1 = al_model al2
    \<and> al_selector al1 = al_selector al2
    \<and> obj_args (al_stopper al1) =
          AInt (int (length (train d1))) # AFloat (confidence p) # fst (snd (stopper p))
    \<and> obj_args (ev_obj (al_evaluator al1)) = [AData (train d1)]
    \<and> obj_args (ev_obj (al_evaluator al2)) = [AData (train d2)]"
proof -
  from run_model_InrD[OF assms(1)] obtain a1 u1 v1
    where c1: "create_active_learner E d1 p (record_call (Run_model p (train d1)) w) = (Inr a1, v1)"
      and e1: "al_batch_size al1 = al_batch_size a1" "al_model al1 = al_model a1"
        "al_selector al1 = al_selector a1" "al_stopper al1 = al_stopper a1"
        "ev_obj (al_evaluator al1) = ev_obj (al_evaluator a1)"
    by blast
  from run_model_InrD[OF assms(2)] obtain a2 u2 v2
    where c2: "create_active_learner E d2 p (record_call (Run_model p (train d2)) w) = (Inr a2, v2)"
      and e2: "al_batch_size al2 = al_batch_size a2" "al_model al2 = al_model a2"
        "al_selector al2 = al_selector a2" "al_stopper al2 = al_stopper a2"
        "ev_obj (al_evaluator al2) = ev_obj (al_evaluator a2)"
    by blast
  have nid: "next_id (record_call (Run_model p (train d1)) w) = next_id w"
    "next_id (record_call (Run_model p (train d2)) w) = next_id w"
    by (simp_all add: record_call_def)
  have bs: "al_batch_size a1 = al_batch_size a2"
    using create_active_learner_InrD(1)[OF c1] create_active_learner_InrD(1)[OF c2] assms(3)
    by simp
  show ?thesis
    using create_active_learner_InrD(3,4,5,6)[OF c1] create_active_learner_InrD(3,4,5,6)[OF c2]
      e1 e2 bs nid assms(3)
    by simp
qed

text \<open>Two datasets of three items with different features and labels.\<close>

theorem stopper_sees_only_size_witness:
  "\<exists>al1 w1 al2 w2.
      run_model example_env (example_data 3) (example_params (1 / 2) []) example_world
        = (Inr al1, w1)
    \<and> run_model example_env \<lparr>train = [([1], False), ([2], True), ([3], False)], dev = []\<rparr>
          (example_params (1 / 2) []) example_world = (Inr al2, w2)
    \<and> al_stopper al1 = al_stopper al2
    \<and> obj_args (al_stopper al1) = [AInt 3, AFloat (19 / 20), AFloat (1 / 10)]
    \<and> obj_args (ev_obj (al_evaluator al1)) = [AData (replicate 3 ([], True))]
    \<and> obj_args (ev_obj (al_evaluator al2)) = [AData [([1], False), ([2], True), ([3], False)]]"
proof -
  have "\<not> isl (fst (run_model example_env (example_data 3) (example_params (1 / 2) [])
                  example_world))"
    by code_simp
  then obtain al1 w1 where r1:
    "run_model example_env (example_data 3) (example_params (1 / 2) []) example_world
       = (Inr al1, w1)"
    by (metis isl_def prod.collapse sum.collapse(2))
  have "\<not> isl (fst (run_model example_env
                  \<lparr>train = [([1], False), ([2], True), ([3], False)], dev = []\<rparr>
                  (example_params (1 / 2) []) example_world))"
    by code_simp
  then obtain al2 w2 where r2:
    "run_model example_env \<lparr>train = [([1], False), ([2], True), ([3], False)], dev = []\<rparr>
       (example_params (1 / 2) []) example_world = (Inr al2, w2)"
    by (metis isl_def prod.collapse sum.collapse(2))
  have len: "length (train (example_data 3)) =
             length (train \<lparr>train = [([1], False), ([2], True), ([3], False)], dev = []\<rparr>)"
    by (simp add: example_data_def)
  from stopper_sees_only_size[OF r1 r2 len]
  have "al_stopper al1 = al_stopper al2
    \<and> obj_args (al_stopper al1) = [AInt 3, AFloat (19 / 20), AFloat (1 / 10)]
    \<and> obj_args (ev_obj (al_evaluator al1)) = [AData (replicate 3 ([], True))]
    \<and> obj_args (ev_obj (al_evaluator al2)) = [AData [([1], False), ([2], True), ([3], False)]]"
    by (auto simp: example_data_def example_params_def)
  with r1 r2 show ?thesis by blast
qed

subsection \<open>Errors in the loops of \<^verbatim>\<open>simulate\<close>\<close>

lemma run_datasets_append:
  "run_datasets E p (dss1 @ dss2) acc w =
     (case run_datasets E p dss1 acc w of
        (Inl e, w1) \<Rightarrow> (Inl e, w1)
      | (Inr als, w1) \<Rightarrow> run_datasets E p dss2 als w1)"
  by (induction dss1 arbitrary: acc w) (auto split: sum.splits prod.splits)

text \<open>
  C4 (as amended). \<^verbatim>\<open>simulate\<close> has no handler around \<^verbatim>\<open>run_model\<close>: when the run of
  one dataset raises, after the runs of the datasets before it succeeded, the loop over
  the datasets, the loop over the configurations and \<^verbatim>\<open>simulate\<close> itself end with that
  error, in the state the failing run left. The datasets after it and the configurations
  after this one are not run.
\<close>

theorem error_aborts_siblings:
  assumes "get_datasets E p = dss1 @ ds # dss2"
    and "run_datasets E p dss1 [] (w\<lparr>rng := seed_state E 0\<rparr>) = (Inr als, w1)"
    and "run_model E \<lparr>train = ds, dev = ds\<rparr> p w1 = (Inl e, w2)"
  shows "run_datasets E p (get_datasets E p) [] (w\<lparr>rng := seed_state E 0\<rparr>) = (Inl e, w2)
    \<and> simulate_configs E (p # ps) configs w = (Inl e, w2)
    \<and> simulate E (p # ps) w = (Inl e, w2)"
proof -
  have rd: "run_datasets E p (get_datasets E p) [] (w\<lparr>rng := seed_state E 0\<rparr>) = (Inl e, w2)"
    using assms by (simp add: run_datasets_append)
  have ne: "length (get_datasets E p) \<noteq> 0" using assms(1) by simp
  have sc: "\<And>cs. simulate_configs E (p # ps) cs w = (Inl e, w2)"
    using rd ne by simp
  show ?thesis using rd sc by (simp add: simulate_def)
qed

text \<open>
  Three datasets, the second empty: the first run succeeds, the second raises
  \<open>TrainingError\<close>, and \<^verbatim>\<open>simulate\<close> ends with it.
\<close>

theorem error_aborts_siblings_witness:
  "get_datasets example_env
     (example_params (1 / 2) [AData (replicate 2 ([], True)), AData [], AData (replicate 3 ([], True))])
     = [replicate 2 ([], True)] @ [] # [replicate 3 ([], True)]
   \<and> \<not> isl (fst (run_datasets example_env
         (example_params (1 / 2) [AData (replicate 2 ([], True)), AData [], AData (replicate 3 ([], True))])
         [replicate 2 ([], True)] [] (example_world\<lparr>rng := seed_state example_env 0\<rparr>)))
   \<and> fst (simulate example_env
         [example_params (1 / 2) [AData (replicate 2 ([], True)), AData [], AData (replicate 3 ([], True))]]
         example_world) = Inl TrainingError"
proof -
  let ?p = "example_params (1 / 2)
              [AData (replicate 2 ([], True)), AData [], AData (replicate 3 ([], True))]"
  let ?X = "run_datasets example_env ?p [replicate 2 ([], True)] []
              (example_world\<lparr>rng := seed_state example_env 0\<rparr>)"
  let ?Y = "run_model example_env \<lparr>train = [], dev = []\<rparr> ?p (snd ?X)"
  have ds: "get_datasets example_env ?p = [replicate 2 ([], True)] @ [] # [replicate 3 ([], True)]"
    by (simp add: example_env_def random_training_def example_params_def)
  have ok: "\<not> isl (fst ?X)"
    by code_simp
  then have X: "?X = (Inr (projr (fst ?X)), snd ?X)"
    by (metis prod.collapse sum.collapse(2))
  have "fst ?Y = Inl TrainingError"
    by code_simp
  then have Y: "?Y = (Inl TrainingError, snd ?Y)"
    by (metis prod.collapse)
  from error_aborts_siblings[OF ds X Y, of "[]" "[]"]
  have "fst (simulate example_env [?p] example_world) = Inl TrainingError"
    by simp
  with ds ok show ?thesis by blast
qed

text \<open>
  The claim as stated fails: of two datasets, the first empty, only the first is run. The
  training of the first raises \<open>TrainingError\<close>, \<^verbatim>\<open>simulate\<close> ends with it, and the only
  call of \<^verbatim>\<open>run_model\<close> is the one for the first dataset.
\<close>

theorem error_aborts_siblings_counterexample:
  "get_datasets example_env (example_params (1 / 2) [AData [], AData (replicate 3 ([], True))])
     = [[], replicate 3 ([], True)]
   \<and> fst (simulate example_env
            [example_params (1 / 2) [AData [], AData (replicate 3 ([], True))]] example_world)
     = Inl TrainingError
   \<and> calls (snd (simulate example_env
            [example_params (1 / 2) [AData [], AData (replicate 3 ([], True))]] example_world))
     = [Run_model (example_params (1 / 2) [AData [], AData (replicate 3 ([], True))]) []]"
  by code_simp

subsection \<open>The random generator\<close>





subsection \<open>The identities of the objects of a run\<close>



subsection \<open>The record of calls\<close>

lemma new_obj_calls: "new_obj E c as kws w = (res, w') \<Longrightarrow> calls w' = calls w"
  by (auto simp: new_obj_def split: prod.splits option.splits)

lemma ActiveLearner_calls:
  "ActiveLearner E m sel stp bs mi ev vb w = (res, w') \<Longrightarrow> calls w' = calls w"
  by (auto simp: ActiveLearner_def Let_def split: prod.splits option.splits)

lemma create_active_learner_calls:
  "create_active_learner E d p w = (res, w') \<Longrightarrow> calls w' = calls w"
  unfolding create_active_learner_def Let_def
  by (auto split: sum.splits prod.splits dest!: new_obj_calls ActiveLearner_calls)

lemma run_model_calls:
  "run_model E d p w = (res, w') \<Longrightarrow> calls w' = calls w @ [Run_model p (train d)]"
  unfolding run_model_def Let_def
  by (auto simp: record_call_def split: sum.splits prod.splits dest!: create_active_learner_calls)

lemma run_datasets_calls:
  "run_datasets E p dss acc w = (res, w') \<Longrightarrow>
     \<exists>k \<le> length dss. calls w' = calls w @ map (Run_model p) (take k dss)"
proof (induction dss arbitrary: acc w)
  case Nil
  then show ?case by simp
next
  case (Cons ds dss)
  obtain r1 w1 where run: "run_model E \<lparr>train = ds, dev = ds\<rparr> p w = (r1, w1)"
    by (cases "run_model E \<lparr>train = ds, dev = ds\<rparr> p w")
  from run_model_calls[OF run] have c1: "calls w1 = calls w @ [Run_model p ds]" by simp
  show ?case
  proof (cases r1)
    case (Inl e)
    with Cons.prems run have "w' = w1" by simp
    with c1 have "calls w' = calls w @ map (Run_model p) (take 1 (ds # dss))" by simp
    then show ?thesis by (intro exI[of _ 1]) simp
  next
    case (Inr al)
    with Cons.prems run have "run_datasets E p dss (acc @ [al]) w1 = (res, w')" by simp
    from Cons.IH[OF this] obtain k where k: "k \<le> length dss"
      "calls w' = calls w1 @ map (Run_model p) (take k dss)" by blast
    then have "calls w' = calls w @ map (Run_model p) (take (Suc k) (ds # dss))"
      using c1 by simp
    with k(1) show ?thesis by (intro exI[of _ "Suc k"]) simp
  qed
qed

lemma run_datasets_length:
  "run_datasets E p dss acc w = (Inr als, w') \<Longrightarrow> length als = length acc + length dss"
  by (induction dss arbitrary: acc w) (auto split: sum.splits prod.splits)

text \<open>
  What the loop over the configurations adds to the record: calls of \<^verbatim>\<open>run_model\<close>,
  and calls of \<^verbatim>\<open>update_metrics\<close> on a list of learners that is not empty.
\<close>

lemma simulate_configs_calls:
  assumes "simulate_configs E ps configs w = (res, w')"
    and "c \<in> set (calls w')"
  shows "c \<in> set (calls w) \<or> (\<exists>p d. c = Run_model p d)
           \<or> (\<exists>als. c = Update_metrics als \<and> als \<noteq> [])"
  using assms
proof (induction ps arbitrary: configs w)
  case Nil
  then show ?case by simp
next
  case (Cons p ps)
  show ?case
  proof (cases "length (get_datasets E p) = 0")
    case True
    with Cons.prems have "simulate_configs E ps configs w = (res, w')" by simp
    from Cons.IH[OF this Cons.prems(2)] show ?thesis .
  next
    case False
    obtain r1 w1 where rd:
      "run_datasets E p (get_datasets E p) [] (w\<lparr>rng := seed_state E 0\<rparr>) = (r1, w1)"
      by (cases "run_datasets E p (get_datasets E p) [] (w\<lparr>rng := seed_state E 0\<rparr>)")
    from run_datasets_calls[OF rd] obtain k where
      c1: "calls w1 = calls w @ map (Run_model p) (take k (get_datasets E p))" by auto
    have in1: "x \<in> set (calls w) \<or> (\<exists>p d. x = Run_model p d)" if "x \<in> set (calls w1)" for x
      using that c1 by auto
    show ?thesis
    proof (cases r1)
      case (Inl e)
      with Cons.prems(1) False rd have "w' = w1" by simp
      with in1 Cons.prems(2) show ?thesis by blast
    next
      case (Inr als)
      from run_datasets_length[OF rd[unfolded Inr]] False have ne: "als \<noteq> []" by auto
      let ?w2 = "record_call (Update_metrics als) w1"
      have in2: "x \<in> set (calls w) \<or> (\<exists>p d. x = Run_model p d)
                   \<or> (\<exists>als. x = Update_metrics als \<and> als \<noteq> [])"
        if "x \<in> set (calls ?w2)" for x
        using that in1 ne by (auto simp: record_call_def)
      show ?thesis
      proof (cases "update_metrics (Config p) als")
        case (Inl e)
        with Cons.prems(1) False rd Inr have "w' = ?w2" by simp
        with in2 Cons.prems(2) show ?thesis by blast
      next
        case (Inr cf)
        with Cons.prems(1) False rd \<open>r1 = Inr als\<close>
        have "simulate_configs E ps (configs @ [cf]) ?w2 = (res, w')" by simp
        from Cons.IH[OF this Cons.prems(2)] in2 show ?thesis by blast
      qed
    qed
  qed
qed

lemma final_values_length:
  "final_values ALs rs ss = Inr (recalls, work_saves) \<Longrightarrow>
     length recalls = length rs + length ALs \<and> length work_saves = length ss + length ALs"
  by (induction ALs arbitrary: rs ss) (auto split: sum.splits)

lemma py_min_Inl: "py_min vs = Inl e \<Longrightarrow> vs = []"
  by (cases vs) simp_all

lemma py_truediv_Inl:
  "py_truediv a n = Inl e \<Longrightarrow> (e = ZeroDivisionError \<and> n = 0) \<or> e = OverflowError"
  by (auto simp: py_truediv_def float_of_nat_def Let_def split: if_splits sum.splits)

lemma update_metrics_errors:
  assumes "update_metrics self als = Inl e"
  shows "(e = ValueError \<and> als = []) \<or> e = IndexError \<or> e = OverflowError"
proof -
  have fv_err: "final_values ALs rs ss = Inl e' \<Longrightarrow> e' = IndexError" for ALs rs ss e'
    by (induction ALs arbitrary: rs ss) (auto simp: py_last_def split: sum.splits if_splits)
  show ?thesis
  proof (cases "final_values als [] []")
    case (Inl e')
    with assms fv_err[OF Inl] show ?thesis by (simp add: update_metrics_def)
  next
    case (Inr pr)
    obtain recalls work_saves where pr: "pr = (recalls, work_saves)" by (cases pr)
    from final_values_length[OF Inr[unfolded pr]]
    have len: "length recalls = length als" "length work_saves = length als" by simp_all
    show ?thesis
    proof (cases "als = []")
      case True
      with assms show ?thesis by (simp add: update_metrics_def)
    next
      case False
      with len have ne: "recalls \<noteq> []" "work_saves \<noteq> []" by auto
      then obtain a b where "py_min recalls = Inr a" "py_min work_saves = Inr b"
        by (metis py_min_Min)
      with assms Inr pr ne show ?thesis
        by (auto simp: update_metrics_def split: sum.splits dest!: py_truediv_Inl)
    qed
  qed
qed

lemma simulate_calls:
  assumes "c \<in> set (calls (snd (simulate E ps w)))"
  shows "c \<in> set (calls w) \<or> (\<exists>p d. c = Run_model p d)
           \<or> (\<exists>als. c = Update_metrics als \<and> als \<noteq> [])
           \<or> (\<exists>cs w1. c = Evaluate_configs cs \<and> cs \<noteq> [] \<and>
                 simulate_configs E ps [] w = (Inr cs, w1))"
proof -
  obtain res w1 where sc: "simulate_configs E ps [] w = (res, w1)"
    by (cases "simulate_configs E ps [] w")
  note base = simulate_configs_calls[OF sc]
  show ?thesis
  proof (cases res)
    case (Inl e)
    with sc assms have "c \<in> set (calls w1)" by (simp add: simulate_def)
    from base[OF this] show ?thesis by blast
  next
    case (Inr cs)
    show ?thesis
    proof (cases "cs = []")
      case True
      with sc Inr assms have "c \<in> set (calls w1)" by (simp add: simulate_def)
      from base[OF this] show ?thesis by blast
    next
      case False
      with sc Inr assms have "c \<in> set (calls w1) \<or> c = Evaluate_configs cs"
        by (auto simp: simulate_def record_call_def split: sum.splits)
      then show ?thesis
      proof
        assume "c \<in> set (calls w1)"
        from base[OF this] show ?thesis by blast
      next
        assume "c = Evaluate_configs cs"
        with False sc Inr show ?thesis by blast
      qed
    qed
  qed
qed

lemma update_metrics_param: "update_metrics self als = Inr c \<Longrightarrow> param c = param self"
  by (auto simp: update_metrics_def split: sum.splits prod.splits)

lemma simulate_configs_calls_prefix:
  "simulate_configs E ps configs w = (res, w') \<Longrightarrow> \<exists>cs. calls w' = calls w @ cs"
proof (induction ps arbitrary: configs w)
  case Nil
  then show ?case by simp
next
  case (Cons p ps)
  show ?case
  proof (cases "length (get_datasets E p) = 0")
    case True
    with Cons.prems have "simulate_configs E ps configs w = (res, w')" by simp
    from Cons.IH[OF this] show ?thesis .
  next
    case False
    obtain r1 w1 where rd:
      "run_datasets E p (get_datasets E p) [] (w\<lparr>rng := seed_state E 0\<rparr>) = (r1, w1)"
      by (cases "run_datasets E p (get_datasets E p) [] (w\<lparr>rng := seed_state E 0\<rparr>)")
    from run_datasets_calls[OF rd] obtain k where
      c1: "calls w1 = calls w @ map (Run_model p) (take k (get_datasets E p))" by auto
    show ?thesis
    proof (cases r1)
      case (Inl e)
      with Cons.prems False rd have "w' = w1" by simp
      with c1 show ?thesis by blast
    next
      case (Inr als)
      let ?w2 = "record_call (Update_metrics als) w1"
      have c2: "calls ?w2 = calls w @ (map (Run_model p) (take k (get_datasets E p))
                                        @ [Update_metrics als])"
        using c1 by (simp add: record_call_def)
      show ?thesis
      proof (cases "update_metrics (Config p) als")
        case (Inl e)
        with Cons.prems False rd Inr have "w' = ?w2" by simp
        with c2 show ?thesis by blast
      next
        case (Inr cf)
        with Cons.prems False rd \<open>r1 = Inr als\<close>
        have "simulate_configs E ps (configs @ [cf]) ?w2 = (res, w')" by simp
        from Cons.IH[OF this] obtain cs where "calls w' = calls ?w2 @ cs" by blast
        with c2 have "calls w' = calls w @ ((map (Run_model p) (take k (get_datasets E p))
                                        @ [Update_metrics als]) @ cs)"
          by simp
        then show ?thesis by blast
      qed
    qed
  qed
qed

text \<open>
  Where a \<^verbatim>\<open>Config\<close> in the list \<^verbatim>\<open>configs\<close> comes from: it was there before the loop,
  or the loop made it for a configuration with datasets, from a call of
  \<^verbatim>\<open>update_metrics\<close> on the learners of that configuration.
\<close>

lemma simulate_configs_origin:
  assumes "simulate_configs E ps configs w = (Inr cs, w')"
    and "c \<in> set cs"
  shows "c \<in> set configs
     \<or> (param c \<in> set ps \<and> get_datasets E (param c) \<noteq> [] \<and>
        (\<exists>learners. learners \<noteq> [] \<and> Update_metrics learners \<in> set (calls w') \<and>
           update_metrics (Config (param c)) learners = Inr c))"
  using assms
proof (induction ps arbitrary: configs w)
  case Nil
  then show ?case by simp
next
  case (Cons p ps)
  show ?case
  proof (cases "length (get_datasets E p) = 0")
    case True
    with Cons.prems have "simulate_configs E ps configs w = (Inr cs, w')" by simp
    from Cons.IH[OF this Cons.prems(2)] show ?thesis by auto
  next
    case False
    obtain r1 w1 where rd:
      "run_datasets E p (get_datasets E p) [] (w\<lparr>rng := seed_state E 0\<rparr>) = (r1, w1)"
      by (cases "run_datasets E p (get_datasets E p) [] (w\<lparr>rng := seed_state E 0\<rparr>)")
    show ?thesis
    proof (cases r1)
      case (Inl e)
      with Cons.prems(1) False rd show ?thesis by simp
    next
      case (Inr als)
      from run_datasets_length[OF rd[unfolded Inr]] False have ne: "als \<noteq> []" by auto
      let ?w2 = "record_call (Update_metrics als) w1"
      show ?thesis
      proof (cases "update_metrics (Config p) als")
        case (Inl e)
        with Cons.prems(1) False rd Inr show ?thesis by simp
      next
        case (Inr cf)
        with Cons.prems(1) False rd \<open>r1 = Inr als\<close>
        have sc: "simulate_configs E ps (configs @ [cf]) ?w2 = (Inr cs, w')" by simp
        from simulate_configs_calls_prefix[OF sc] have logged: "Update_metrics als \<in> set (calls w')"
          by (auto simp: record_call_def)
        from update_metrics_param[OF Inr] have pc: "param cf = p" by (simp add: Config_def)
        from Cons.IH[OF sc Cons.prems(2)] consider "c \<in> set configs" | "c = cf"
          | "param c \<in> set ps \<and> get_datasets E (param c) \<noteq> [] \<and>
              (\<exists>learners. learners \<noteq> [] \<and> Update_metrics learners \<in> set (calls w') \<and>
                 update_metrics (Config (param c)) learners = Inr c)"
          by auto
        then show ?thesis
        proof cases
          case 1
          then show ?thesis by simp
        next
          case 2
          with pc False ne logged Inr show ?thesis by auto
        next
          case 3
          then show ?thesis by auto
        qed
      qed
    qed
  qed
qed

text \<open>
  C9. The loop makes a \<^verbatim>\<open>Config\<close> only after the runs of a configuration: every
  \<^verbatim>\<open>Config\<close> in the list it returns was in the list before, or belongs to a configuration
  for which \<^verbatim>\<open>get_datasets\<close> returned at least one dataset, and is what
  \<^verbatim>\<open>update_metrics\<close> returned for the learners of that configuration, a list that is not
  empty. So no \<^verbatim>\<open>Config\<close> is made for a configuration without datasets, every call of
  \<^verbatim>\<open>update_metrics\<close> that \<^verbatim>\<open>simulate\<close> makes is on a list of learners that is not empty,
  and such a call raises neither \<open>ZeroDivisionError\<close> nor \<open>ValueError\<close>.
\<close>

theorem update_metrics_only_on_runs:
  "(simulate_configs E ps configs w = (Inr cs, w') \<and> c \<in> set cs \<longrightarrow>
      c \<in> set configs
      \<or> (param c \<in> set ps \<and> get_datasets E (param c) \<noteq> [] \<and>
         (\<exists>learners. learners \<noteq> [] \<and> Update_metrics learners \<in> set (calls w') \<and>
            update_metrics (Config (param c)) learners = Inr c)))
   \<and> (Update_metrics als \<in> set (calls (snd (simulate E ps w))) \<longrightarrow>
        Update_metrics als \<in> set (calls w)
        \<or> (als \<noteq> [] \<and> update_metrics self als \<noteq> Inl ZeroDivisionError
              \<and> update_metrics self als \<noteq> Inl ValueError))"
proof (intro conjI impI)
  assume "simulate_configs E ps configs w = (Inr cs, w') \<and> c \<in> set cs"
  then show "c \<in> set configs
      \<or> (param c \<in> set ps \<and> get_datasets E (param c) \<noteq> [] \<and>
         (\<exists>learners. learners \<noteq> [] \<and> Update_metrics learners \<in> set (calls w') \<and>
            update_metrics (Config (param c)) learners = Inr c))"
    using simulate_configs_origin[of E ps configs w cs w' c] by blast
next
  assume "Update_metrics als \<in> set (calls (snd (simulate E ps w)))"
  from simulate_calls[OF this]
  have "Update_metrics als \<in> set (calls w) \<or> als \<noteq> []" by auto
  moreover have "update_metrics self als \<noteq> Inl ZeroDivisionError
      \<and> update_metrics self als \<noteq> Inl ValueError" if "als \<noteq> []"
    using update_metrics_errors[of self als] that by auto
  ultimately show "Update_metrics als \<in> set (calls w)
        \<or> (als \<noteq> [] \<and> update_metrics self als \<noteq> Inl ZeroDivisionError
              \<and> update_metrics self als \<noteq> Inl ValueError)"
    by blast
qed

text \<open>
  Two configurations, the first without datasets and the second with two. The loop returns
  one \<^verbatim>\<open>Config\<close>, that of the second configuration, and the one call of
  \<^verbatim>\<open>update_metrics\<close> is on the learners of the second.
\<close>

theorem update_metrics_only_on_runs_witness:
  "get_datasets example_env (example_params (1 / 2) []) = []
   \<and> (\<exists>c w'. simulate_configs example_env
        [example_params (1 / 2) [],
         example_params (1 / 2)
           [AData [([1], True), ([2], False)], AData [([], True), ([], True), ([], False)]]]
        [] example_world = (Inr [c], w')
      \<and> param c = example_params (1 / 2)
           [AData [([1], True), ([2], False)], AData [([], True), ([], True), ([], False)]]
      \<and> (\<exists>learners. learners \<noteq> [] \<and> Update_metrics learners \<in> set (calls w') \<and>
            update_metrics (Config (param c)) learners = Inr c))
   \<and> (\<exists>als. Update_metrics als \<in> set (calls (snd (simulate example_env
        [example_params (1 / 2) [],
         example_params (1 / 2)
           [AData [([1], True), ([2], False)], AData [([], True), ([], True), ([], False)]]]
        example_world)))
      \<and> als \<noteq> []
      \<and> update_metrics (Config (example_params (1 / 2) [])) als \<noteq> Inl ZeroDivisionError)"
proof -
  let ?p1 = "example_params (1 / 2) []"
  let ?p2 = "example_params (1 / 2)
               [AData [([1], True), ([2], False)], AData [([], True), ([], True), ([], False)]]"
  let ?sc = "simulate_configs example_env [?p1, ?p2] [] example_world"
  let ?log = "calls (snd (simulate example_env [?p1, ?p2] example_world))"
  have skip: "get_datasets example_env ?p1 = []"
    by (simp add: example_env_def random_training_def example_params_def)
  have "map_sum id (map param) (fst ?sc) = Inr [?p2]"
    by (simp add: example_defs)
  then obtain c where c: "fst ?sc = Inr [c]" and pc: "param c = ?p2"
    by (cases "fst ?sc") auto
  then have sc: "?sc = (Inr [c], snd ?sc)"
    by (metis prod.collapse)
  from update_metrics_only_on_runs[where E = example_env and ps = "[?p1, ?p2]"
      and configs = "[]" and w = example_world and cs = "[c]" and w' = "snd ?sc" and c = c] sc
  have origin: "\<exists>learners. learners \<noteq> [] \<and> Update_metrics learners \<in> set (calls (snd ?sc)) \<and>
            update_metrics (Config (param c)) learners = Inr c"
    by simp
  have "2 < length ?log \<and> (case ?log ! 2 of Update_metrics als \<Rightarrow> True | _ \<Rightarrow> False)"
    by (simp add: example_defs)
  then obtain als where als: "?log ! 2 = Update_metrics als" and len: "2 < length ?log"
    by (cases "?log ! 2") auto
  then have mem: "Update_metrics als \<in> set ?log"
    by (metis nth_mem)
  have init: "Update_metrics als \<notin> set (calls example_world)"
    by (simp add: example_world_def)
  from update_metrics_only_on_runs[where E = example_env and ps = "[?p1, ?p2]"
      and w = example_world and als = als
      and self = "Config (example_params (1 / 2) [])"] mem init
  have 2: "als \<noteq> [] \<and>
           update_metrics (Config (example_params (1 / 2) [])) als \<noteq> Inl ZeroDivisionError"
    by blast
  from skip sc pc origin 2 mem show ?thesis by blast
qed

subsection \<open>The bounds of \<^verbatim>\<open>evaluate_configs\<close>\<close>

lemma update_metrics_Config:
  "update_metrics (Config p) als = Inr c \<Longrightarrow>
     map metric_name (metrics c) = [''min metrics'', ''mean metrics''] \<and> param c = p"
  by (auto simp: update_metrics_def Config_def split: sum.splits prod.splits)

lemma simulate_configs_metrics:
  assumes "simulate_configs E ps configs w = (Inr cs, w')"
    and "\<forall>c \<in> set configs. map metric_name (metrics c) = [''min metrics'', ''mean metrics'']"
  shows "\<forall>c \<in> set cs. map metric_name (metrics c) = [''min metrics'', ''mean metrics'']"
  using assms
proof (induction ps arbitrary: configs w)
  case Nil
  then show ?case by simp
next
  case (Cons p ps)
  show ?case
  proof (cases "length (get_datasets E p) = 0")
    case True
    with Cons.prems have "simulate_configs E ps configs w = (Inr cs, w')" by simp
    from Cons.IH[OF this Cons.prems(2)] show ?thesis .
  next
    case False
    with Cons.prems(1) obtain als w1 cf
      where um: "update_metrics (Config p) als = Inr cf"
        and rest: "simulate_configs E ps (configs @ [cf])
                     (record_call (Update_metrics als) w1) = (Inr cs, w')"
      by (auto split: sum.splits prod.splits)
    from update_metrics_Config[OF um] Cons.prems(2)
    have "\<forall>c \<in> set (configs @ [cf]).
            map metric_name (metrics c) = [''min metrics'', ''mean metrics'']"
      by simp
    from Cons.IH[OF rest this] show ?thesis .
  qed
qed

lemma gather_ok:
  "\<forall>c \<in> set cs. i < length (metrics c) \<Longrightarrow> \<exists>vx' vy'. gather cs i vx vy = Inr (vx', vy')"
  by (induction cs arbitrary: vx vy) (simp_all add: py_nth_def)

lemma plot_metrics_ok:
  assumes "\<forall>im \<in> set ims. \<forall>c \<in> set cs. fst im < length (metrics c)"
  shows "\<exists>axs'. plot_metrics cs ims axs = Inr axs' \<and> length axs' = length axs + length ims"
  using assms
proof (induction ims arbitrary: axs)
  case Nil
  then show ?case by simp
next
  case (Cons im ims)
  obtain i m where im: "im = (i, m)" by (cases im)
  from Cons.prems im have "\<forall>c \<in> set cs. i < length (metrics c)" by simp
  from gather_ok[OF this, of "[]" "[]"] obtain vx vy where g: "gather cs i [] [] = Inr (vx, vy)"
    by blast
  from Cons.prems have "\<forall>im \<in> set ims. \<forall>c \<in> set cs. fst im < length (metrics c)" by simp
  from Cons.IH[OF this, of "axs @ [\<lparr>plot_name = metric_name m,
      plot_x = (fst (metric_x m), vx), plot_y = (fst (metric_y m), vy)\<rparr>]"]
  show ?case using im g by simp
qed

lemma write_plots_ok:
  assumes "cs \<noteq> []" and "\<forall>ia \<in> set ias. fst ia < length (metrics (cs ! 0))"
  shows "\<exists>out'. write_plots cs ias out = Inr out'"
  using assms(2)
proof (induction ias arbitrary: out)
  case Nil
  then show ?case by simp
next
  case (Cons ia ias)
  obtain i ax where ia: "ia = (i, ax)" by (cases ia)
  from Cons.prems ia have "i < length (metrics (cs ! 0))" by simp
  moreover from Cons.prems have "\<forall>ia \<in> set ias. fst ia < length (metrics (cs ! 0))" by simp
  ultimately show ?case using Cons.IH assms(1) ia by (simp add: py_nth_def)
qed

lemma evaluate_configs_ok:
  assumes "cs \<noteq> []" and "\<forall>c \<in> set cs. length (metrics c) = 2"
  shows "\<exists>axs. evaluate_configs cs = Inr axs \<and> length axs = 2
           \<and> (\<exists>out. write_plots cs (enumerate 0 axs) [] = Inr out)"
proof -
  from assms have c0: "length (metrics (cs ! 0)) = 2" by (cases cs) auto
  have "\<forall>im \<in> set (enumerate 0 (metrics (cs ! 0))). \<forall>c \<in> set cs. fst im < length (metrics c)"
    using assms(2) c0 by (auto simp: in_set_enumerate_eq)
  from plot_metrics_ok[OF this, of "[]"] obtain axs
    where axs: "plot_metrics cs (enumerate 0 (metrics (cs ! 0))) [] = Inr axs" "length axs = 2"
    using c0 by auto
  have ev: "evaluate_configs cs = Inr axs"
    using assms(1) axs(1) by (simp add: evaluate_configs_def py_nth_def)
  have "\<forall>ia \<in> set (enumerate 0 axs). fst ia < length (metrics (cs ! 0))"
    using axs(2) c0 by (auto simp: in_set_enumerate_eq)
  from write_plots_ok[OF assms(1) this] ev axs(2) show ?thesis by blast
qed

text \<open>
  C10. \<^verbatim>\<open>simulate\<close> calls \<^verbatim>\<open>evaluate_configs\<close> only on a list of configurations
  that is not empty, and each of them has exactly the two entries that its one call of
  \<^verbatim>\<open>update_metrics\<close> appended, \<^verbatim>\<open>'min metrics'\<close> then \<^verbatim>\<open>'mean metrics'\<close>. So the
  call raises no \<open>IndexError\<close>: it returns two plots, and the file names read from
  \<^verbatim>\<open>configs[0].metrics[i]\<close> afterwards are in bounds as well.
\<close>

theorem evaluate_configs_in_bounds:
  "Evaluate_configs cs \<in> set (calls (snd (simulate E ps w))) \<longrightarrow>
     Evaluate_configs cs \<in> set (calls w)
     \<or> (cs \<noteq> []
         \<and> (\<forall>c \<in> set cs. map metric_name (metrics c) = [''min metrics'', ''mean metrics''])
         \<and> (\<exists>axs. evaluate_configs cs = Inr axs \<and> length axs = 2
                \<and> (\<exists>out. write_plots cs (enumerate 0 axs) [] = Inr out)))"
proof
  assume "Evaluate_configs cs \<in> set (calls (snd (simulate E ps w)))"
  from simulate_calls[OF this] consider "Evaluate_configs cs \<in> set (calls w)"
    | w1 where "cs \<noteq> []" "simulate_configs E ps [] w = (Inr cs, w1)"
    by auto
  then show "Evaluate_configs cs \<in> set (calls w)
     \<or> (cs \<noteq> []
         \<and> (\<forall>c \<in> set cs. map metric_name (metrics c) = [''min metrics'', ''mean metrics''])
         \<and> (\<exists>axs. evaluate_configs cs = Inr axs \<and> length axs = 2
                \<and> (\<exists>out. write_plots cs (enumerate 0 axs) [] = Inr out)))"
  proof cases
    case 1
    then show ?thesis by simp
  next
    case 2
    from simulate_configs_metrics[OF 2(2)]
    have names: "\<forall>c \<in> set cs. map metric_name (metrics c) = [''min metrics'', ''mean metrics'']"
      by simp
    have "\<forall>c \<in> set cs. length (metrics c) = 2"
    proof
      fix c assume "c \<in> set cs"
      with names have "length (map metric_name (metrics c)) = 2" by simp
      then show "length (metrics c) = 2" by simp
    qed
    from evaluate_configs_ok[OF 2(1) this] 2(1) names show ?thesis by blast
  qed
qed

text \<open>
  Two configurations with datasets: \<^verbatim>\<open>evaluate_configs\<close> is called on the two
  \<^verbatim>\<open>Config\<close> objects and returns two plots.
\<close>

theorem evaluate_configs_in_bounds_witness:
  "\<exists>cs. Evaluate_configs cs \<in> set (calls (snd (simulate example_env
        [example_params (1 / 2) [AData [([1], True), ([2], False)]],
         example_params (1 / 2) [AData [([], True), ([], True), ([], False)],
                                 AData [([3], True), ([4], True)]]]
        example_world)))
     \<and> length cs = 2
     \<and> (\<exists>axs. evaluate_configs cs = Inr axs \<and> length axs = 2)"
proof -
  let ?ps = "[example_params (1 / 2) [AData [([1], True), ([2], False)]],
         example_params (1 / 2) [AData [([], True), ([], True), ([], False)],
                                 AData [([3], True), ([4], True)]]]"
  let ?log = "calls (snd (simulate example_env ?ps example_world))"
  have "5 < length ?log
        \<and> (case ?log ! 5 of Evaluate_configs cs \<Rightarrow> length cs = 2 | _ \<Rightarrow> False)"
    by (simp add: example_defs)
  then obtain cs where cs: "?log ! 5 = Evaluate_configs cs" "length cs = 2"
    and len: "5 < length ?log"
    by (cases "?log ! 5") auto
  then have mem: "Evaluate_configs cs \<in> set ?log"
    by (metis nth_mem)
  have init: "Evaluate_configs cs \<notin> set (calls example_world)"
    by (simp add: example_world_def)
  from evaluate_configs_in_bounds[where E = example_env and ps = ?ps and w = example_world
      and cs = cs] mem init
  have "\<exists>axs. evaluate_configs cs = Inr axs \<and> length axs = 2"
    by blast
  with mem cs(2) show ?thesis by blast
qed

subsection \<open>No object is shared between runs\<close>














text \<open>
  What the runs of one configuration do share is the random generator: it is seeded once,
  before the first run, and each run starts in the state the run before it left. In the
  concrete world above a training run draws its batch with the generator, so the same
  dataset gets a different batch when another dataset is run before it.
\<close>

lemma generator_carried_between_runs:
  "map al_batches (projr (fst (run_datasets example_env (example_params (1 / 2) [])
      [[([3], True), ([4], True)]] [] (example_world\<lparr>rng := 0\<rparr>)))) = [[[0]]]"
  "map al_batches (projr (fst (run_datasets example_env (example_params (1 / 2) [])
      [[([1], True), ([2], False)], [([3], True), ([4], True)]] []
      (example_world\<lparr>rng := 0\<rparr>)))) = [[[0]], [[1]]]"
  by (simp_all add: example_defs)

end
